theory Spec2Isabelle
  imports Complex_Main "HOL-Library.Multiset"
begin

section \<open>Values, errors and mappings\<close>

text \<open>
  The store exchanges JSON-like values with the search engine. A finite float is a
  rational number, so numbers are rationals and their comparison is the one of the
  floats. Float arithmetic rounds: the one operation the source performs, a
  subtraction, is a parameter of the model (\<open>float_sub\<close> below).
\<close>

datatype json =
    JNull
  | JBool bool
  | JNum rat
  | JStr string
  | JList "json list"
  | JObj "(string \<times> json) list"

text \<open>
  A Python \<open>dict\<close> with string keys, in insertion order. Python keeps the keys distinct;
  the operations below never introduce a duplicate, and \<open>dict_del\<close> removes every entry
  of a key, so a popped key is absent afterwards whatever the list held.
\<close>

type_synonym dict = "(string \<times> json) list"

text \<open>
  The exceptions of the source: \<open>KeyError\<close> (a missing key, carried along),
  \<open>TypeError\<close>, \<open>ValueError\<close> (the failed unpacking), \<open>IndexError\<close>, the \<open>RuntimeError\<close> and the
  plain \<open>Exception\<close> the store raises itself with their messages, and whatever the
  search client raises.
\<close>

datatype error =
    KeyError string
  | TypeError
  | ValueError
  | RuntimeError string
  | IndexError
  | Exception string
  | BackendError string

text \<open>Python's truth value of an object (\<open>if x:\<close>, \<open>not x\<close>).\<close>

fun truthy :: "json \<Rightarrow> bool" where
  "truthy JNull = False"
| "truthy (JBool b) = b"
| "truthy (JNum r) = (r \<noteq> 0)"
| "truthy (JStr s) = (s \<noteq> [])"
| "truthy (JList xs) = (xs \<noteq> [])"
| "truthy (JObj d) = (d \<noteq> [])"

text \<open>An optional argument that is \<open>None\<close> or a list of strings: true when a non-empty list.\<close>

fun truthy_list :: "string list option \<Rightarrow> bool" where
  "truthy_list None = False"
| "truthy_list (Some xs) = (xs \<noteq> [])"

text \<open>An optional argument that is \<open>None\<close> or a string: true when a non-empty string.\<close>

fun truthy_str :: "string option \<Rightarrow> bool" where
  "truthy_str None = False"
| "truthy_str (Some s) = (s \<noteq> [])"

text \<open>\<open>d[k]\<close>: raises \<open>KeyError\<close> on a missing key.\<close>

definition dict_get :: "dict \<Rightarrow> string \<Rightarrow> error + json" where
  "dict_get d k = (case map_of d k of None \<Rightarrow> Inl (KeyError k) | Some v \<Rightarrow> Inr v)"

definition dict_del :: "string \<Rightarrow> dict \<Rightarrow> dict" where
  "dict_del k d = filter (\<lambda>kv. fst kv \<noteq> k) d"

text \<open>\<open>d.pop(k)\<close>: the value and the mapping without the key, or \<open>KeyError\<close>.\<close>

definition dict_pop :: "dict \<Rightarrow> string \<Rightarrow> error + (json \<times> dict)" where
  "dict_pop d k = (case map_of d k of None \<Rightarrow> Inl (KeyError k) | Some v \<Rightarrow> Inr (v, dict_del k d))"

text \<open>\<open>d[k] = v\<close>: an existing key keeps its place, a new one goes last.\<close>

fun dict_set :: "dict \<Rightarrow> string \<Rightarrow> json \<Rightarrow> dict" where
  "dict_set [] k v = [(k, v)]"
| "dict_set (p # ps) k v = (if fst p = k then (k, v) # ps else p # dict_set ps k v)"

text \<open>\<open>d.update(other)\<close>: the entries of \<open>other\<close> are stored in their order.\<close>

fun dict_update :: "dict \<Rightarrow> dict \<Rightarrow> dict" where
  "dict_update d [] = d"
| "dict_update d (kv # kvs) = dict_update (dict_set d (fst kv) (snd kv)) kvs"

section \<open>The store and the engine's hits\<close>

text \<open>
  The attributes \<open>__init__\<close> sets on the store. \<open>index_name\<close> is \<open>self.index\<close>;
  \<open>tag_fields\<close>, \<open>embedding_field\<close> and \<open>excluded_meta_data\<close> default to \<open>None\<close>.
\<close>

record store =
  index_name :: string
  search_fields :: "string list"
  tag_fields :: "string list option"
  embedding_field :: "string option"
  excluded_meta_data :: "string list option"
  is_nested :: bool
  nested_path :: string
  text_field :: string
  name_field :: string
  doc_id_field :: string

text \<open>
  The \<open>_source\<close> mapping of a hit is a mutable object: the projections pop fields from
  it and hand the object itself to the caller. It is kept in an explicit heap, and a hit
  carries its address.
\<close>

type_synonym addr = nat
type_synonym heap = "addr \<Rightarrow> dict"

text \<open>
  A hit as the engine returns it: \<open>_id\<close>, \<open>_score\<close> (a number, or \<open>null\<close>), \<open>_source\<close>
  and, for a nested query, \<open>inner_hits\<close>: a mapping from the nested path to the inner
  hits (the list under \<open>["hits"]["hits"]\<close>), \<open>None\<close> when the hit has no such key.
\<close>

record inner_hit =
  ih_source :: addr
  ih_score :: "rat option"

record hit =
  hit_id :: string
  hit_score :: "rat option"
  hit_source :: addr
  hit_inner_hits :: "(string \<times> inner_hit list) list option"

text \<open>
  The metadata mapping of the text-query projections, whose keys are the five fixed
  literals of the source; \<open>custom_meta\<close> is the source mapping object itself.
\<close>

record meta =
  paragraph_id :: string
  document_id :: json
  document_name :: json
  score :: "rat option"
  custom_meta :: addr

section \<open>Result projection\<close>

subsection \<open>\<open>extract_paragraphs\<close>\<close>

text \<open>
  The body of the loop for one hit: the text is popped from the source mapping, then
  the two standard fields are read from the mapping as the pop left it. The heap is
  returned as the body left it, also when a lookup raised.
\<close>

definition extract_hit :: "store \<Rightarrow> hit \<Rightarrow> heap \<Rightarrow> (error + json \<times> meta) \<times> heap" where
  "extract_hit s x h =
     (case dict_pop (h (hit_source x)) (text_field s) of
        Inl e \<Rightarrow> (Inl e, h)
      | Inr (txt, d) \<Rightarrow>
          (let h' = h(hit_source x := d) in
           case dict_get (h' (hit_source x)) (doc_id_field s) of
             Inl e \<Rightarrow> (Inl e, h')
           | Inr doc_id \<Rightarrow>
               (case dict_get (h' (hit_source x)) (name_field s) of
                  Inl e \<Rightarrow> (Inl e, h')
                | Inr doc_name \<Rightarrow>
                    (Inr (txt,
                          \<lparr>paragraph_id = hit_id x, document_id = doc_id,
                           document_name = doc_name, score = hit_score x,
                           custom_meta = hit_source x\<rparr>),
                     h'))))"

text \<open>The loop over the hits, with \<open>paragraphs\<close> and \<open>meta_data\<close> as accumulators.\<close>

fun extract_loop ::
  "store \<Rightarrow> hit list \<Rightarrow> json list \<times> meta list \<Rightarrow> heap \<Rightarrow> (error + json list \<times> meta list) \<times> heap" where
  "extract_loop s [] acc h = (Inr acc, h)"
| "extract_loop s (x # xs) acc h =
     (case extract_hit s x h of
        (Inl e, h') \<Rightarrow> (Inl e, h')
      | (Inr (txt, m), h') \<Rightarrow> extract_loop s xs (fst acc @ [txt], snd acc @ [m]) h')"

definition extract_paragraphs ::
  "store \<Rightarrow> hit list \<Rightarrow> heap \<Rightarrow> (error + json list \<times> meta list) \<times> heap" where
  "extract_paragraphs s result h = extract_loop s result ([], []) h"

subsection \<open>\<open>extract_paragraphs_nested\<close>\<close>

text \<open>\<open>hit["inner_hits"][self.nested_path]["hits"]["hits"]\<close>.\<close>

definition get_inner_hits :: "store \<Rightarrow> hit \<Rightarrow> error + inner_hit list" where
  "get_inner_hits s x =
     (case hit_inner_hits x of
        None \<Rightarrow> Inl (KeyError ''inner_hits'')
      | Some m \<Rightarrow>
          (case map_of m (nested_path s) of
             None \<Rightarrow> Inl (KeyError (nested_path s))
           | Some ihs \<Rightarrow> Inr ihs))"

text \<open>The body of the inner loop for one inner hit. Nothing is popped here.\<close>

definition nested_hit :: "store \<Rightarrow> heap \<Rightarrow> hit \<Rightarrow> inner_hit \<Rightarrow> error + json \<times> meta" where
  "nested_hit s h x i =
     (case dict_get (h (ih_source i)) (text_field s) of
        Inl e \<Rightarrow> Inl e
      | Inr txt \<Rightarrow>
          (case dict_get (h (ih_source i)) (doc_id_field s) of
             Inl e \<Rightarrow> Inl e
           | Inr doc_id \<Rightarrow>
               (case dict_get (h (ih_source i)) (name_field s) of
                  Inl e \<Rightarrow> Inl e
                | Inr doc_name \<Rightarrow>
                    Inr (txt,
                         \<lparr>paragraph_id = hit_id x, document_id = doc_id,
                          document_name = doc_name, score = ih_score i,
                          custom_meta = ih_source i\<rparr>))))"

fun nested_inner_loop ::
  "store \<Rightarrow> heap \<Rightarrow> hit \<Rightarrow> inner_hit list \<Rightarrow> json list \<times> meta list \<Rightarrow> error + json list \<times> meta list" where
  "nested_inner_loop s h x [] acc = Inr acc"
| "nested_inner_loop s h x (i # is) acc =
     (case nested_hit s h x i of
        Inl e \<Rightarrow> Inl e
      | Inr (txt, m) \<Rightarrow> nested_inner_loop s h x is (fst acc @ [txt], snd acc @ [m]))"

fun nested_outer_loop ::
  "store \<Rightarrow> heap \<Rightarrow> hit list \<Rightarrow> json list \<times> meta list \<Rightarrow> error + json list \<times> meta list" where
  "nested_outer_loop s h [] acc = Inr acc"
| "nested_outer_loop s h (x # xs) acc =
     (case get_inner_hits s x of
        Inl e \<Rightarrow> Inl e
      | Inr ihs \<Rightarrow>
          (case nested_inner_loop s h x ihs acc of
             Inl e \<Rightarrow> Inl e
           | Inr acc' \<Rightarrow> nested_outer_loop s h xs acc'))"

text \<open>
  \<open>zipped.sort(key=lambda x: x[1]["score"], reverse=True)\<close>: a stable sort by descending
  score. Comparing \<open>None\<close> with anything raises \<open>TypeError\<close>, and a sort of two or more
  elements compares each of them at least once; a shorter list is not compared at all.
\<close>

definition score_key :: "json \<times> meta \<Rightarrow> rat" where
  "score_key z = (case score (snd z) of None \<Rightarrow> 0 | Some r \<Rightarrow> r)"

definition sort_by_score :: "(json \<times> meta) list \<Rightarrow> error + (json \<times> meta) list" where
  "sort_by_score zs =
     (if 2 \<le> length zs \<and> (\<exists>z \<in> set zs. score (snd z) = None) then Inl TypeError
      else Inr (sort_key (\<lambda>z. - score_key z) zs))"

text \<open>\<open>xs[:k]\<close>: a negative \<open>k\<close> counts from the end.\<close>

definition slice_to :: "'a list \<Rightarrow> int \<Rightarrow> 'a list" where
  "slice_to xs k = (if 0 \<le> k then take (nat k) xs else take (nat (int (length xs) + k)) xs)"

text \<open>
  \<open>paragraphs, meta_data = zip(*zipped)\<close>: \<open>zip()\<close> of no argument yields nothing, and
  unpacking nothing into two names raises \<open>ValueError\<close>.
\<close>

definition unzip_pairs :: "('a \<times> 'b) list \<Rightarrow> error + 'a list \<times> 'b list" where
  "unzip_pairs zs = (if zs = [] then Inl ValueError else Inr (map fst zs, map snd zs))"

definition extract_paragraphs_nested ::
  "store \<Rightarrow> hit list \<Rightarrow> int \<Rightarrow> heap \<Rightarrow> error + json list \<times> meta list" where
  "extract_paragraphs_nested s result top_k h =
     (case nested_outer_loop s h result ([], []) of
        Inl e \<Rightarrow> Inl e
      | Inr acc \<Rightarrow>
          (case sort_by_score (zip (fst acc) (snd acc)) of
             Inl e \<Rightarrow> Inl e
           | Inr zipped \<Rightarrow> unzip_pairs (slice_to zipped top_k)))"

subsection \<open>\<open>query_by_embedding\<close>: the projection loop\<close>

text \<open>
  Python's subtraction of floats: \<open>fsub a b\<close> is the float that \<open>a - b\<close> evaluates to,
  the difference rounded to a float. Nothing is assumed of the rounding.
\<close>

type_synonym float_sub = "rat \<Rightarrow> rat \<Rightarrow> rat"

text \<open>
  \<open>hit["_score"] - 1\<close>: \<open>None - 1\<close> raises \<open>TypeError\<close>; for a float score the integer
  \<open>1\<close> is converted to the float \<open>1.0\<close> and the floats are subtracted.
\<close>

definition sub_one :: "float_sub \<Rightarrow> rat option \<Rightarrow> error + rat" where
  "sub_one fsub sc = (case sc of None \<Rightarrow> Inl TypeError | Some r \<Rightarrow> Inr (fsub r 1))"

text \<open>
  The body of the loop at the end of \<open>query_by_embedding\<close> for one hit. The entries of
  the \<open>cur_meta\<close> literal are evaluated in their order (two more pops, then the score),
  and \<open>cur_meta.update(hit["_source"])\<close> stores what is left of the source mapping.
\<close>

definition embedding_hit :: "float_sub \<Rightarrow> store \<Rightarrow> hit \<Rightarrow> heap \<Rightarrow> (error + json \<times> dict) \<times> heap" where
  "embedding_hit fsub s x h =
     (case dict_pop (h (hit_source x)) (text_field s) of
        Inl e \<Rightarrow> (Inl e, h)
      | Inr (txt, d1) \<Rightarrow>
          (let h1 = h(hit_source x := d1) in
           case dict_pop (h1 (hit_source x)) (doc_id_field s) of
             Inl e \<Rightarrow> (Inl e, h1)
           | Inr (doc_id, d2) \<Rightarrow>
               (let h2 = h1(hit_source x := d2) in
                case dict_pop (h2 (hit_source x)) (name_field s) of
                  Inl e \<Rightarrow> (Inl e, h2)
                | Inr (doc_name, d3) \<Rightarrow>
                    (let h3 = h2(hit_source x := d3) in
                     case sub_one fsub (hit_score x) of
                       Inl e \<Rightarrow> (Inl e, h3)
                     | Inr sc \<Rightarrow>
                         (Inr (txt,
                               dict_update
                                 [(''paragraph_id'', JStr (hit_id x)),
                                  (''document_id'', doc_id),
                                  (''document_name'', doc_name),
                                  (''score'', JNum sc)]
                                 (h3 (hit_source x))),
                          h3)))))"

fun embedding_loop ::
  "float_sub \<Rightarrow> store \<Rightarrow> hit list \<Rightarrow> json list \<times> dict list \<Rightarrow> heap \<Rightarrow> (error + json list \<times> dict list) \<times> heap" where
  "embedding_loop fsub s [] acc h = (Inr acc, h)"
| "embedding_loop fsub s (x # xs) acc h =
     (case embedding_hit fsub s x h of
        (Inl e, h') \<Rightarrow> (Inl e, h')
      | (Inr (txt, m), h') \<Rightarrow> embedding_loop fsub s xs (fst acc @ [txt], snd acc @ [m]) h')"

section \<open>The search client\<close>

text \<open>
  The Elasticsearch client is outside the repository. Its calls are parameters:
  \<open>client_indices_create index body\<close> is what \<open>indices.create(index, ignore=400, body)\<close>
  raises, if anything; \<open>client_search index body size\<close> is the list under
  \<open>["hits"]["hits"]\<close> of the response to \<open>search\<close> (\<open>size\<close> being the keyword argument,
  when given), or what the call raises; \<open>client_index\<close> is \<open>index(index, body)\<close> on the
  engine's state \<open>'b\<close>, which successive writes change.
\<close>

record 'b client =
  client_indices_create :: "string \<Rightarrow> json \<Rightarrow> error option"
  client_search :: "string \<Rightarrow> json \<Rightarrow> nat option \<Rightarrow> error + hit list"
  client_index :: "'b \<Rightarrow> string \<Rightarrow> dict \<Rightarrow> error option \<times> 'b"

section \<open>Construction\<close>

text \<open>\<open>s.split(c)\<close> for a one-character separator: always at least one part.\<close>

fun py_split :: "char \<Rightarrow> string \<Rightarrow> string list" where
  "py_split c [] = [[]]"
| "py_split c (x # xs) =
     (if x = c then [] # py_split c xs
      else (case py_split c xs of [] \<Rightarrow> [[x]] | p # ps \<Rightarrow> (x # p) # ps))"

text \<open>\<open>sep.join(parts)\<close>.\<close>

fun py_join :: "string \<Rightarrow> string list \<Rightarrow> string" where
  "py_join sep [] = []"
| "py_join sep [p] = p"
| "py_join sep (p # q # ps) = p @ sep @ py_join sep (q # ps)"

text \<open>The \<open>search_fields\<close> argument: one string, or a list of strings.\<close>

datatype str_or_list = OneStr string | StrList "string list"

text \<open>
  The default mapping, built when no \<open>custom_mapping\<close> is given. The vector field is
  stored under the configured \<open>embedding_field\<close>.
\<close>

definition default_mapping :: "string \<Rightarrow> string \<Rightarrow> string \<Rightarrow> string option \<Rightarrow> json \<Rightarrow> json" where
  "default_mapping name_f text_f doc_id_f emb_f emb_dim =
     (let props0 =
            dict_set
              (dict_set
                 (dict_set [] name_f (JObj [(''type'', JStr ''text'')]))
                 text_f (JObj [(''type'', JStr ''text'')]))
              doc_id_f (JObj [(''type'', JStr ''text'')]);
          props =
            (case emb_f of
               None \<Rightarrow> props0
             | Some f \<Rightarrow>
                 if f \<noteq> [] then
                   dict_set props0 f (JObj [(''type'', JStr ''dense_vector''), (''dims'', emb_dim)])
                 else props0)
      in JObj [(''mappings'', JObj [(''properties'', JObj props)])])"

text \<open>The body of the create call: the custom mapping when one is given (and not empty).\<close>

definition index_body :: "string \<Rightarrow> string \<Rightarrow> string \<Rightarrow> string option \<Rightarrow> json \<Rightarrow> json \<Rightarrow> json" where
  "index_body name_f text_f doc_id_f emb_f emb_dim custom_mapping =
     (if \<not> truthy custom_mapping
      then default_mapping name_f text_f doc_id_f emb_f emb_dim
      else custom_mapping)"

text \<open>
  \<open>__init__\<close>. The connection arguments (host, credentials, scheme, certificates) only
  reach the client's constructor and are left out. \<open>parts[:-1]\<close> is \<open>butlast parts\<close> and
  \<open>parts[-1]\<close> is \<open>last parts\<close>, the parts of a split never being empty.
\<close>

definition init ::
  "'b client \<Rightarrow> string \<Rightarrow> str_or_list \<Rightarrow> string \<Rightarrow> string \<Rightarrow> string \<Rightarrow> string list option \<Rightarrow>
   string option \<Rightarrow> json \<Rightarrow> json \<Rightarrow> string list option \<Rightarrow> error + store" where
  "init cl idx search_flds text_f name_f doc_id_f tag_flds emb_f emb_dim custom_mapping excluded =
     (case client_indices_create cl idx
             (index_body name_f text_f doc_id_f emb_f emb_dim custom_mapping) of
           Some e \<Rightarrow> Inl e
         | None \<Rightarrow>
             (let text_field_parts = py_split CHR ''.'' text_f;
                  name_field_parts = py_split CHR ''.'' name_f;
                  doc_id_field_parts = py_split CHR ''.'' doc_id_f
              in if (1 < length text_field_parts \<or> 1 < length doc_id_field_parts
                       \<or> 1 < length name_field_parts)
                    \<and> \<not> (butlast text_field_parts = butlast doc_id_field_parts
                           \<and> butlast doc_id_field_parts = butlast name_field_parts)
                 then Inl (Exception
                   ''text_field, doc_id_field, name_field should have the same nested path'')
                 else Inr
                   \<lparr>index_name = idx,
                    search_fields = (case search_flds of OneStr f \<Rightarrow> [f] | StrList fs \<Rightarrow> fs),
                    tag_fields = tag_flds,
                    embedding_field = emb_f,
                    excluded_meta_data = excluded,
                    is_nested = (1 < length text_field_parts),
                    nested_path =
                      (if 1 < length text_field_parts
                       then py_join ''.'' (butlast text_field_parts) else []),
                    text_field = last text_field_parts,
                    name_field = last name_field_parts,
                    doc_id_field = last doc_id_field_parts\<rparr>))"

section \<open>Lookups, tags and writes\<close>

text \<open>
  \<open>xs[k]\<close> on a list: an integer subscript counts from the end when negative and raises
  \<open>IndexError\<close> out of range; a string subscript raises \<open>TypeError\<close> (list indices must
  be integers or slices), whatever the list holds.
\<close>

datatype subscript = Index int | Key string

definition list_getitem :: "'a list \<Rightarrow> subscript \<Rightarrow> error + 'a" where
  "list_getitem xs k =
     (case k of
        Key name \<Rightarrow> Inl TypeError
      | Index i \<Rightarrow>
          (if 0 \<le> i \<and> i < int (length xs) then Inr (xs ! nat i)
           else if i < 0 \<and> 0 \<le> int (length xs) + i then Inr (xs ! nat (int (length xs) + i))
           else Inl IndexError))"

text \<open>
  \<open>get_document_by_id\<close>: \<open>result\<close> is the list of hits, and the three entries of the
  document subscript that list with the store's field names.
\<close>

definition get_document_by_id ::
  "'b client \<Rightarrow> store \<Rightarrow> json \<Rightarrow> error + (string \<times> hit) list option" where
  "get_document_by_id cl s ident =
     (case client_search cl (index_name s)
             (JObj [(''filter'', JObj [(''term'', JObj [(''_id'', ident)])])]) None of
        Inl e \<Rightarrow> Inl e
      | Inr result \<Rightarrow>
          if result \<noteq> [] then
            (case list_getitem result (Key (doc_id_field s)) of
               Inl e \<Rightarrow> Inl e
             | Inr i \<Rightarrow>
                 (case list_getitem result (Key (name_field s)) of
                    Inl e \<Rightarrow> Inl e
                  | Inr n \<Rightarrow>
                      (case list_getitem result (Key (text_field s)) of
                         Inl e \<Rightarrow> Inl e
                       | Inr t \<Rightarrow> Inr (Some [(''id'', i), (''name'', n), (''text'', t)]))))
          else Inr None)"

text \<open>\<open>tags\<close> maps a tag field to its allowed values.\<close>

definition tag_query :: "dict \<Rightarrow> json" where
  "tag_query tags =
     JObj [(''query'', JObj [(''bool'', JObj
       [(''must'', JList (map (\<lambda>kv. JObj [(''terms'', JObj [(fst kv, snd kv)])]) tags))])])]"

definition get_document_ids_by_tags :: "'b client \<Rightarrow> store \<Rightarrow> dict \<Rightarrow> error + string list" where
  "get_document_ids_by_tags cl s tags =
     (case client_search cl (index_name s) (tag_query tags) (Some 10000) of
        Inl e \<Rightarrow> Inl e
      | Inr result \<Rightarrow> Inr (map hit_id result))"

text \<open>
  What \<open>write_documents\<close> acts on: the engine's state, the calls of \<open>client.index\<close> made
  so far (index and body), and the records \<open>logger.error\<close> wrote (the exception and the
  document of the message).
\<close>

record 'b world =
  engine :: 'b
  index_calls :: "(string \<times> dict) list"
  error_log :: "(error \<times> dict) list"

text \<open>
  The loop of \<open>write_documents\<close>: \<open>except Exception\<close> catches what the call raised and
  logs it, and the loop goes on. The function returns \<open>None\<close>.
\<close>

fun write_documents :: "'b client \<Rightarrow> store \<Rightarrow> dict list \<Rightarrow> 'b world \<Rightarrow> (error + unit) \<times> 'b world" where
  "write_documents cl s [] w = (Inr (), w)"
| "write_documents cl s (d # ds) w =
     (case client_index cl (engine w) (index_name s) d of
        (None, b) \<Rightarrow>
          write_documents cl s ds
            (w\<lparr>engine := b, index_calls := index_calls w @ [(index_name s, d)]\<rparr>)
      | (Some e, b) \<Rightarrow>
          write_documents cl s ds
            (w\<lparr>engine := b, index_calls := index_calls w @ [(index_name s, d)],
               error_log := error_log w @ [(e, d)]\<rparr>))"

text \<open>What the engine answers to the successive writes of \<open>ds\<close>, from state \<open>b\<close>.\<close>

fun index_outcomes :: "'b client \<Rightarrow> string \<Rightarrow> 'b \<Rightarrow> dict list \<Rightarrow> error option list" where
  "index_outcomes cl idx b [] = []"
| "index_outcomes cl idx b (d # ds) =
     fst (client_index cl b idx d) # index_outcomes cl idx (snd (client_index cl b idx d)) ds"

section \<open>Queries\<close>

definition id_list :: "string list option \<Rightarrow> json" where
  "id_list cands = (case cands of None \<Rightarrow> JNull | Some ids \<Rightarrow> JList (map JStr ids))"

text \<open>
  \<open>prepare_query\<close>: the assignments to \<open>query["bool"]["filter"]\<close> and \<open>body["_source"]\<close>
  are \<open>dict_set\<close> on the literal built before.
\<close>

definition prepare_query :: "store \<Rightarrow> json \<Rightarrow> int \<Rightarrow> string list option \<Rightarrow> json" where
  "prepare_query s query_text top_k candidate_doc_ids =
     (let bool0 =
            [(''should'', JList [JObj [(''multi_match'', JObj
               [(''query'', query_text), (''type'', JStr ''most_fields''),
                (''fields'', JList (map JStr (search_fields s)))])]])];
          bool1 =
            (if truthy_list candidate_doc_ids
             then dict_set bool0 ''filter''
                    (JList [JObj [(''terms'', JObj [(''_id'', id_list candidate_doc_ids)])]])
             else bool0);
          query0 = JObj [(''bool'', JObj bool1)];
          query1 =
            (if is_nested s
             then JObj [(''nested'', JObj
                    [(''path'', JStr (nested_path s)), (''query'', query0),
                     (''inner_hits'', JObj [])])]
             else query0);
          body = [(''size'', JNum (of_int top_k)), (''query'', query1)]
      in JObj
           (if truthy_list (excluded_meta_data s)
            then dict_set body ''_source''
                   (JObj [(''excludes'', id_list (excluded_meta_data s))])
            else body))"

text \<open>
  \<open>query\<close>. The heap \<open>h\<close> is the heap once the response is parsed: it holds the source
  mappings the hits point to.
\<close>

definition query ::
  "'b client \<Rightarrow> store \<Rightarrow> json \<Rightarrow> int \<Rightarrow> string list option \<Rightarrow> heap \<Rightarrow>
   (error + json list \<times> meta list) \<times> heap" where
  "query cl s query_text top_k candidate_doc_ids h =
     (case client_search cl (index_name s)
             (prepare_query s query_text top_k candidate_doc_ids) None of
        Inl e \<Rightarrow> (Inl e, h)
      | Inr result \<Rightarrow>
          if is_nested s then (extract_paragraphs_nested s result top_k h, h)
          else extract_paragraphs s result h)"

text \<open>The request body \<open>query_by_embedding\<close> builds before it calls the engine.\<close>

definition script_source :: string where
  "script_source =
     ''cosineSimilarity(params.query_vector,doc['' @ [CHR 0x27] @ ''question_emb''
       @ [CHR 0x27] @ '']) + 1.0''"

definition embedding_body :: "store \<Rightarrow> json \<Rightarrow> int \<Rightarrow> string list option \<Rightarrow> json" where
  "embedding_body s query_emb top_k candidate_doc_ids =
     (let inner =
            (if truthy_list candidate_doc_ids
             then JObj [(''bool'', JObj
                    [(''should'', JList [JObj [(''match_all'', JObj [])]]),
                     (''filter'',
                      JList [JObj [(''terms'', JObj [(''_id'', id_list candidate_doc_ids)])]])])]
             else JObj [(''match_all'', JObj [])]);
          body =
            [(''size'', JNum (of_int top_k)),
             (''query'', JObj [(''script_score'', JObj
                [(''query'', inner),
                 (''script'', JObj
                    [(''source'', JStr script_source),
                     (''params'', JObj [(''query_vector'', query_emb)])])])])]
      in JObj
           (if truthy_list (excluded_meta_data s)
            then dict_set body ''_source''
                   (JObj [(''excludes'', id_list (excluded_meta_data s))])
            else body))"

definition query_by_embedding ::
  "float_sub \<Rightarrow> 'b client \<Rightarrow> store \<Rightarrow> json \<Rightarrow> int \<Rightarrow> string list option \<Rightarrow> heap \<Rightarrow>
   (error + json list \<times> dict list) \<times> heap" where
  "query_by_embedding fsub cl s query_emb top_k candidate_doc_ids h =
     (if \<not> truthy_str (embedding_field s)
      then (Inl (RuntimeError
              ''Please specify arg `embedding_field` in ElasticsearchDocumentStore()''), h)
      else
        (case client_search cl (index_name s)
                (embedding_body s query_emb top_k candidate_doc_ids) None of
           Inl e \<Rightarrow> (Inl e, h)
         | Inr result \<Rightarrow> embedding_loop fsub s result ([], []) h))"

section \<open>Reading a request body\<close>

text \<open>The value under a key of a JSON object, and under a path of keys.\<close>

fun json_field :: "string \<Rightarrow> json \<Rightarrow> json option" where
  "json_field k (JObj d) = map_of d k"
| "json_field k j = None"

fun json_path :: "string list \<Rightarrow> json \<Rightarrow> json option" where
  "json_path [] j = Some j"
| "json_path (k # ks) j = (case json_field k j of None \<Rightarrow> None | Some j' \<Rightarrow> json_path ks j')"

text \<open>Whether a key occurs in an object anywhere inside a JSON value.\<close>

fun has_key :: "string \<Rightarrow> json \<Rightarrow> bool" where
  "has_key k (JList xs) = (\<exists>x \<in> set xs. has_key k x)"
| "has_key k (JObj d) = (\<exists>p \<in> set d. fst p = k \<or> has_key k (snd p))"
| "has_key k j = False"

text \<open>
  Where the \<open>bool\<close> clause of a text query body stands: under \<open>query\<close>, inside the
  \<open>nested\<close> envelope when the store is nested.
\<close>

definition bool_path :: "store \<Rightarrow> string list" where
  "bool_path s =
     (if is_nested s then [''query'', ''nested'', ''query'', ''bool''] else [''query'', ''bool''])"

text \<open>
  The records \<open>write_documents\<close> is expected to log: one for each write the engine
  answered with an exception, in the order of the documents.
\<close>

definition logged :: "error option list \<Rightarrow> dict list \<Rightarrow> (error \<times> dict) list" where
  "logged rs ds =
     concat (map (\<lambda>rd. case fst rd of None \<Rightarrow> [] | Some e \<Rightarrow> [(e, snd rd)]) (zip rs ds))"

text \<open>
  What is left of a source mapping once the loop of \<open>query_by_embedding\<close> popped the
  text, the document id and the name.
\<close>

definition strip3 :: "store \<Rightarrow> dict \<Rightarrow> dict" where
  "strip3 s d = dict_del (name_field s) (dict_del (doc_id_field s) (dict_del (text_field s) d))"

text \<open>
  The pairs the nested projection is expected to produce, described without the loops:
  for each outer hit and each of its inner hits (those under the nested path), the text
  field of the inner hit's source and the metadata built from the outer hit's id and the
  inner hit's document id, name, score and source. \<open>field_value\<close> reads a field that is
  there; \<open>nested_wf\<close> says that every outer hit has inner hits under the nested path
  and that the source of every inner hit has the three fields.
\<close>

definition field_value :: "heap \<Rightarrow> addr \<Rightarrow> string \<Rightarrow> json" where
  "field_value h a k = (case map_of (h a) k of None \<Rightarrow> JNull | Some v \<Rightarrow> v)"

definition projected_pair :: "store \<Rightarrow> heap \<Rightarrow> hit \<Rightarrow> inner_hit \<Rightarrow> json \<times> meta" where
  "projected_pair s h x i =
     (field_value h (ih_source i) (text_field s),
      \<lparr>paragraph_id = hit_id x,
       document_id = field_value h (ih_source i) (doc_id_field s),
       document_name = field_value h (ih_source i) (name_field s),
       score = ih_score i,
       custom_meta = ih_source i\<rparr>)"

definition inner_hits_of :: "store \<Rightarrow> hit \<Rightarrow> inner_hit list" where
  "inner_hits_of s x = (case get_inner_hits s x of Inl e \<Rightarrow> [] | Inr ihs \<Rightarrow> ihs)"

definition flattened :: "store \<Rightarrow> heap \<Rightarrow> hit list \<Rightarrow> (json \<times> meta) list" where
  "flattened s h result = concat (map (\<lambda>x. map (projected_pair s h x) (inner_hits_of s x)) result)"

definition inner_ok :: "store \<Rightarrow> heap \<Rightarrow> inner_hit \<Rightarrow> bool" where
  "inner_ok s h i =
     (map_of (h (ih_source i)) (text_field s) \<noteq> None
      \<and> map_of (h (ih_source i)) (doc_id_field s) \<noteq> None
      \<and> map_of (h (ih_source i)) (name_field s) \<noteq> None)"

definition nested_wf :: "store \<Rightarrow> heap \<Rightarrow> hit list \<Rightarrow> bool" where
  "nested_wf s h result =
     list_all (\<lambda>x. case get_inner_hits s x of
                     Inl e \<Rightarrow> False
                   | Inr ihs \<Rightarrow> list_all (inner_ok s h) ihs) result"

section \<open>The engine's answer to a tag query\<close>

text \<open>
  Modelled from the spec: the search engine is outside the repository, and what it
  answers to the query of \<open>get_document_ids_by_tags\<close> is known from the specification
  alone, which calls that query a must-match-all-terms query across the tag fields,
  with a result capped at a fixed upper bound. A document of the index is its id and its
  source mapping. A \<open>terms\<close> clause on a field matches a document whose field holds one
  of the listed values; a document matches the query when it matches every clause of the
  \<open>must\<close> list; the engine answers with the ids of the matching documents, in the order
  of the index, at most \<open>size\<close> of them.
\<close>

fun terms_clause_matches :: "json \<Rightarrow> dict \<Rightarrow> bool" where
  "terms_clause_matches (JObj [(kind, JObj [(field, JList allowed)])]) doc =
     (kind = ''terms''
      \<and> (case map_of doc field of None \<Rightarrow> False | Some v \<Rightarrow> v \<in> set allowed))"
| "terms_clause_matches clause doc = False"

definition must_matches :: "json \<Rightarrow> dict \<Rightarrow> bool" where
  "must_matches body doc =
     (case json_path [''query'', ''bool'', ''must''] body of
        Some (JList clauses) \<Rightarrow> list_all (\<lambda>c. terms_clause_matches c doc) clauses
      | _ \<Rightarrow> False)"

definition engine_ids :: "(string \<times> dict) list \<Rightarrow> json \<Rightarrow> nat \<Rightarrow> string list" where
  "engine_ids docs body size_cap =
     take size_cap (map fst (filter (\<lambda>d. must_matches body (snd d)) docs))"

section \<open>Example data\<close>

text \<open>A flat store with the default field names, and one with an embedding field.\<close>

definition flat_store :: store where
  "flat_store =
     \<lparr>index_name = ''document'', search_fields = [''text''], tag_fields = None,
      embedding_field = None, excluded_meta_data = None, is_nested = False,
      nested_path = [], text_field = ''text'', name_field = ''name'',
      doc_id_field = ''document_id''\<rparr>"

definition embedding_store :: store where
  "embedding_store = flat_store\<lparr>embedding_field := Some ''embedding''\<rparr>"

text \<open>
  The float subtraction on operands whose difference is itself a float, as for the
  scores of the examples (\<open>2 - 1\<close> and \<open>1.5 - 1\<close>): no rounding takes place.
\<close>

definition exact_sub :: float_sub where
  "exact_sub a b = a - b"

text \<open>A client that answers every search with the given hits and accepts every write.\<close>

definition fixed_client :: "hit list \<Rightarrow> unit client" where
  "fixed_client hits =
     \<lparr>client_indices_create = (\<lambda>idx body. None),
      client_search = (\<lambda>idx body size. Inr hits),
      client_index = (\<lambda>b idx d. (None, b))\<rparr>"

text \<open>
  A client whose engine counts the writes it has seen and rejects the second one.
\<close>

definition second_write_fails :: "nat client" where
  "second_write_fails =
     \<lparr>client_indices_create = (\<lambda>idx body. None),
      client_search = (\<lambda>idx body size. Inr []),
      client_index =
        (\<lambda>b idx d. (if b = 1 then Some (BackendError ''rejected'') else None, Suc b))\<rparr>"

text \<open>A nested store: its three fields live under the path \<open>q\<close>.\<close>

definition nested_store :: store where
  "nested_store =
     \<lparr>index_name = ''document'', search_fields = [''q.text''], tag_fields = None,
      embedding_field = None, excluded_meta_data = None, is_nested = True,
      nested_path = ''q'', text_field = ''text'', name_field = ''name'',
      doc_id_field = ''id''\<rparr>"

definition plain_hit :: "string \<Rightarrow> rat \<Rightarrow> addr \<Rightarrow> hit" where
  "plain_hit i sc a = \<lparr>hit_id = i, hit_score = Some sc, hit_source = a, hit_inner_hits = None\<rparr>"

text \<open>Two flat hits and the heap that holds their source mappings.\<close>

definition example_heap :: heap where
  "example_heap =
     (\<lambda>a. [])
       (0 := [(''text'', JStr ''first paragraph''), (''document_id'', JStr ''d1''),
              (''name'', JStr ''doc one''), (''lang'', JStr ''en'')],
        1 := [(''text'', JStr ''second paragraph''), (''document_id'', JStr ''d2''),
              (''name'', JStr ''doc two'')])"

definition example_hits :: "hit list" where
  "example_hits = [plain_hit ''p1'' 2 0, plain_hit ''p2'' (3 / 2) 1]"


text \<open>
  Two outer hits of a nested query: the first with inner hits scored 0.2 and 0.9, the
  second with one inner hit scored 0.5.
\<close>

definition nested_heap :: heap where
  "nested_heap =
     (\<lambda>a. [])
       (10 := [(''text'', JStr ''alpha''), (''id'', JStr ''d1''), (''name'', JStr ''doc one'')],
        11 := [(''text'', JStr ''beta''), (''id'', JStr ''d1''), (''name'', JStr ''doc one'')],
        12 := [(''text'', JStr ''gamma''), (''id'', JStr ''d2''), (''name'', JStr ''doc two'')])"

definition nested_hits :: "hit list" where
  "nested_hits =
     [\<lparr>hit_id = ''H1'', hit_score = Some 1, hit_source = 0,
       hit_inner_hits = Some [(''q'', [\<lparr>ih_source = 10, ih_score = Some (1 / 5)\<rparr>,
                                       \<lparr>ih_source = 11, ih_score = Some (9 / 10)\<rparr>])]\<rparr>,
      \<lparr>hit_id = ''H2'', hit_score = Some 1, hit_source = 1,
       hit_inner_hits = Some [(''q'', [\<lparr>ih_source = 12, ih_score = Some (1 / 2)\<rparr>])]\<rparr>]"

text \<open>An index of two documents with a tag field.\<close>

definition tagged_docs :: "(string \<times> dict) list" where
  "tagged_docs =
     [(''p1'', [(''text'', JStr ''alpha''), (''topic'', JStr ''law'')]),
      (''p2'', [(''text'', JStr ''beta''), (''topic'', JStr ''tax'')])]"

section \<open>Properties\<close>

lemma extract_paragraphs_no_hits: "extract_paragraphs s [] h = (Inr ([], []), h)"
  by (simp add: extract_paragraphs_def)

text \<open>
  C1. On a result of zero hits the nested projection does not return two empty
  sequences: the final unpacking raises \<open>ValueError\<close>, for every store, limit and heap.
  (The flat projection returns the two empty lists, see \<open>extract_paragraphs_no_hits\<close>.)
\<close>

theorem extract_paragraphs_nested_no_hits:
  "extract_paragraphs_nested s [] top_k h = Inl ValueError"
  by (simp add: extract_paragraphs_nested_def sort_by_score_def slice_to_def unzip_pairs_def)

text \<open>
  C2. The request body of \<open>query_by_embedding\<close> does not depend on the configured
  embedding field: whatever name \<open>f\<close> the store was given, the body is the one built
  for the name \<open>question_emb\<close>, and its scoring script reads \<open>doc['question_emb']\<close>
  (the default mapping, in contrast, declares the vector under the configured name).
\<close>

theorem embedding_body_ignores_embedding_field:
  "embedding_body (s\<lparr>embedding_field := Some f\<rparr>) query_emb top_k cands
     = embedding_body (s\<lparr>embedding_field := Some ''question_emb''\<rparr>) query_emb top_k cands
   \<and> json_path [''query'', ''script_score'', ''script'', ''source'']
         (embedding_body (s\<lparr>embedding_field := Some f\<rparr>) query_emb top_k cands)
       = Some (JStr (''cosineSimilarity(params.query_vector,doc['' @ [CHR 0x27]
                      @ ''question_emb'' @ [CHR 0x27] @ '']) + 1.0''))"
  by (simp add: embedding_body_def Let_def script_source_def)

text \<open>
  C3. \<open>get_document_by_id\<close> returns \<open>None\<close> on an empty hit list, but on a non-empty
  one it raises \<open>TypeError\<close> instead of returning a document: it indexes the list of
  hits with a field name.
\<close>

theorem get_document_by_id_result:
  "client_search cl (index_name s)
     (JObj [(''filter'', JObj [(''term'', JObj [(''_id'', ident)])])]) None = Inr result
   \<Longrightarrow> get_document_by_id cl s ident = (if result = [] then Inr None else Inl TypeError)"
  by (simp add: get_document_by_id_def list_getitem_def)

theorem get_document_by_id_result_witness:
  "get_document_by_id (fixed_client []) flat_store (JStr ''7'') = Inr None
   \<and> get_document_by_id (fixed_client [plain_hit ''7'' 1 0]) flat_store (JStr ''7'')
       = Inl TypeError"
  using get_document_by_id_result [of "fixed_client []" flat_store "JStr ''7''" "[]"]
        get_document_by_id_result
          [of "fixed_client [plain_hit ''7'' 1 0]" flat_store "JStr ''7''" "[plain_hit ''7'' 1 0]"]
  by (simp add: fixed_client_def)

lemma has_key_strs: "\<not> has_key k (JList (map JStr xs))"
  by (induction xs) auto

text \<open>
  C6. The \<open>bool\<close> clause of a text query body holds the \<open>should\<close> list alone when
  the candidate ids are absent or empty, with no \<open>filter\<close> key; with candidate ids it
  holds the same \<open>should\<close> list and, under \<open>filter\<close>, exactly one \<open>terms\<close> clause on
  \<open>_id\<close> that lists those ids. Without candidate ids the key \<open>filter\<close> occurs nowhere
  in the body of a query for a string.
\<close>

theorem prepare_query_filter:
  "json_path (bool_path s) (prepare_query s q top_k None) =
     Some (JObj [(''should'', JList [JObj [(''multi_match'', JObj
       [(''query'', q), (''type'', JStr ''most_fields''),
        (''fields'', JList (map JStr (search_fields s)))])]])])
   \<and> json_path (bool_path s) (prepare_query s q top_k (Some [])) =
     Some (JObj [(''should'', JList [JObj [(''multi_match'', JObj
       [(''query'', q), (''type'', JStr ''most_fields''),
        (''fields'', JList (map JStr (search_fields s)))])]])])
   \<and> json_path (bool_path s) (prepare_query s q top_k (Some (i # ids))) =
     Some (JObj [(''should'', JList [JObj [(''multi_match'', JObj
       [(''query'', q), (''type'', JStr ''most_fields''),
        (''fields'', JList (map JStr (search_fields s)))])]]),
       (''filter'', JList [JObj [(''terms'', JObj [(''_id'', JList (map JStr (i # ids)))])]])])
   \<and> \<not> has_key ''filter'' (prepare_query s (JStr query_text) top_k None)
   \<and> \<not> has_key ''filter'' (prepare_query s (JStr query_text) top_k (Some []))"
proof -
  have "\<not> has_key ''filter'' (prepare_query s (JStr query_text) top_k None)
      \<and> \<not> has_key ''filter'' (prepare_query s (JStr query_text) top_k (Some []))"
    by (cases "excluded_meta_data s")
      (auto simp: prepare_query_def Let_def id_list_def has_key_strs)
  then show ?thesis
    by (simp add: prepare_query_def bool_path_def Let_def id_list_def)
qed

theorem prepare_query_filter_witness:
  "prepare_query flat_store (JStr ''why'') 10 (Some [''a'', ''b'']) =
     JObj [(''size'', JNum 10),
           (''query'', JObj [(''bool'', JObj
              [(''should'', JList [JObj [(''multi_match'', JObj
                 [(''query'', JStr ''why''), (''type'', JStr ''most_fields''),
                  (''fields'', JList [JStr ''text''])])]]),
               (''filter'', JList [JObj [(''terms'', JObj
                 [(''_id'', JList [JStr ''a'', JStr ''b''])])]])])])]
   \<and> json_path (bool_path flat_store)
         (prepare_query flat_store (JStr ''why'') 10 (Some [''a'', ''b''])) =
       Some (JObj
              [(''should'', JList [JObj [(''multi_match'', JObj
                 [(''query'', JStr ''why''), (''type'', JStr ''most_fields''),
                  (''fields'', JList [JStr ''text''])])]]),
               (''filter'', JList [JObj [(''terms'', JObj
                 [(''_id'', JList [JStr ''a'', JStr ''b''])])]])])"
  using prepare_query_filter [of flat_store "JStr ''why''" 10 "''a''" "[''b'']"]
  by (simp add: prepare_query_def flat_store_def Let_def id_list_def)

text \<open>
  C8. \<open>write_documents\<close> never raises. It calls \<open>client.index\<close> once for every
  document, in order, whatever the earlier calls answered, and it logs exactly the
  writes that raised.
\<close>

theorem write_documents_attempts_all:
  "fst (write_documents cl s ds w) = Inr ()
   \<and> index_calls (snd (write_documents cl s ds w))
       = index_calls w @ map (Pair (index_name s)) ds
   \<and> error_log (snd (write_documents cl s ds w))
       = error_log w @ logged (index_outcomes cl (index_name s) (engine w) ds) ds"
proof (induction ds arbitrary: w)
  case Nil
  show ?case by (simp add: logged_def)
next
  case (Cons d ds)
  obtain r b where rb: "client_index cl (engine w) (index_name s) d = (r, b)"
    by (cases "client_index cl (engine w) (index_name s) d")
  show ?case
  proof (cases r)
    case None
    with rb Cons.IH [of "w\<lparr>engine := b, index_calls := index_calls w @ [(index_name s, d)]\<rparr>"]
    show ?thesis by (simp add: logged_def)
  next
    case (Some e)
    with rb Cons.IH [of "w\<lparr>engine := b, index_calls := index_calls w @ [(index_name s, d)],
                          error_log := error_log w @ [(e, d)]\<rparr>"]
    show ?thesis by (simp add: logged_def)
  qed
qed

theorem write_documents_attempts_all_witness:
  "write_documents second_write_fails flat_store
     [[(''text'', JStr ''a'')], [(''text'', JStr ''b'')], [(''text'', JStr ''c'')]]
     \<lparr>engine = 0, index_calls = [], error_log = []\<rparr>
   = (Inr (),
      \<lparr>engine = 3,
       index_calls = [(''document'', [(''text'', JStr ''a'')]),
                      (''document'', [(''text'', JStr ''b'')]),
                      (''document'', [(''text'', JStr ''c'')])],
       error_log = [(BackendError ''rejected'', [(''text'', JStr ''b'')])]\<rparr>)"
  using write_documents_attempts_all
    [of second_write_fails flat_store
        "[[(''text'', JStr ''a'')], [(''text'', JStr ''b'')], [(''text'', JStr ''c'')]]"
        "\<lparr>engine = 0, index_calls = [], error_log = []\<rparr>"]
  by (simp add: second_write_fails_def flat_store_def numeral_3_eq_3)

text \<open>How the modelled engine answers a query with one tag.\<close>

lemma tag_filter_example:
  "engine_ids tagged_docs (tag_query [(''topic'', JList [JStr ''tax''])]) 10000 = [''p2'']"
  by (simp add: engine_ids_def must_matches_def tag_query_def tagged_docs_def)

text \<open>
  C10. With an empty tag mapping \<open>get_document_ids_by_tags\<close> sends a \<open>bool\<close> query
  whose \<open>must\<close> list is empty, with \<open>size\<close> 10000. Every document of the index matches
  that query, so when the client answers as the engine does, the function returns the
  ids of the first 10000 documents of the index, all of them when there are fewer: at
  most 10000 ids, and not the empty list unless the index is empty.
\<close>

theorem get_document_ids_by_tags_no_tags:
  assumes "client_search cl (index_name s) (tag_query []) (Some 10000) = Inr hits"
    and "map hit_id hits = engine_ids docs (tag_query []) 10000"
  shows "tag_query [] = JObj [(''query'', JObj [(''bool'', JObj [(''must'', JList [])])])]
     \<and> list_all (\<lambda>d. must_matches (tag_query []) (snd d)) docs
     \<and> get_document_ids_by_tags cl s [] = Inr (take 10000 (map fst docs))
     \<and> length (take 10000 (map fst docs)) = min 10000 (length docs)
     \<and> (docs \<noteq> [] \<longrightarrow> get_document_ids_by_tags cl s [] \<noteq> Inr [])"
proof -
  have m: "must_matches (tag_query []) d" for d
    by (simp add: must_matches_def tag_query_def)
  then have all: "list_all (\<lambda>d. must_matches (tag_query []) (snd d)) docs"
    by (simp add: list_all_iff)
  have "engine_ids docs (tag_query []) 10000 = take 10000 (map fst docs)"
    using m by (simp add: engine_ids_def)
  with assms have r: "get_document_ids_by_tags cl s [] = Inr (take 10000 (map fst docs))"
    by (simp add: get_document_ids_by_tags_def)
  have "docs \<noteq> [] \<longrightarrow> get_document_ids_by_tags cl s [] \<noteq> Inr []"
    by (simp add: r)
  with all r show ?thesis by (simp add: tag_query_def)
qed

theorem get_document_ids_by_tags_no_tags_witness:
  "client_search (fixed_client [plain_hit ''p1'' 1 0, plain_hit ''p2'' 1 1])
       (index_name flat_store) (tag_query []) (Some 10000)
     = Inr [plain_hit ''p1'' 1 0, plain_hit ''p2'' 1 1]
   \<and> map hit_id [plain_hit ''p1'' 1 0, plain_hit ''p2'' 1 1]
       = engine_ids tagged_docs (tag_query []) 10000
   \<and> get_document_ids_by_tags (fixed_client [plain_hit ''p1'' 1 0, plain_hit ''p2'' 1 1])
       flat_store [] = Inr [''p1'', ''p2'']"
  using get_document_ids_by_tags_no_tags
    [of "fixed_client [plain_hit ''p1'' 1 0, plain_hit ''p2'' 1 1]" flat_store
        "[plain_hit ''p1'' 1 0, plain_hit ''p2'' 1 1]" tagged_docs]
  by (simp add: fixed_client_def plain_hit_def engine_ids_def must_matches_def tag_query_def
      tagged_docs_def)

subsection \<open>Splitting and joining field paths\<close>

lemma py_split_nonempty: "py_split c s \<noteq> []"
  by (induction s) (auto split: list.splits)

lemma py_split_no_sep: "c \<notin> set s \<Longrightarrow> py_split c s = [s]"
  by (induction s) auto

lemma py_split_snoc: "c \<notin> set l \<Longrightarrow> py_split c (p @ c # l) = py_split c p @ [l]"
proof (induction p)
  case Nil
  then show ?case by (simp add: py_split_no_sep)
next
  case (Cons x p)
  then show ?case using py_split_nonempty [of c p] by (auto split: list.splits)
qed

lemma py_split_parts_no_sep: "q \<in> set (py_split c s) \<Longrightarrow> c \<notin> set q"
proof (induction s arbitrary: q)
  case Nil
  then show ?case by simp
next
  case (Cons x s)
  then show ?case by (auto split: if_splits list.splits)
qed

lemma py_join_split: "py_join [c] (py_split c s) = s"
proof (induction s)
  case Nil
  then show ?case by simp
next
  case (Cons x s)
  show ?case
  proof (cases "x = c")
    case True
    with Cons py_split_nonempty [of c s] show ?thesis
      by (cases "py_split c s") auto
  next
    case False
    with Cons py_split_nonempty [of c s] show ?thesis
      by (cases "py_split c s"; cases "tl (py_split c s)") auto
  qed
qed

lemma py_join_snoc: "ps \<noteq> [] \<Longrightarrow> py_join sep (ps @ [l]) = py_join sep ps @ sep @ l"
  by (induction sep ps rule: py_join.induct) auto

lemma split_decompose:
  assumes "1 < length (py_split c s)"
  shows "s = py_join [c] (butlast (py_split c s)) @ c # last (py_split c s)"
proof -
  have ne: "butlast (py_split c s) \<noteq> []" using assms
    by (cases "py_split c s"; cases "tl (py_split c s)") auto
  have "py_split c s = butlast (py_split c s) @ [last (py_split c s)]"
    using py_split_nonempty [of c s] by simp
  then have "py_join [c] (py_split c s)
      = py_join [c] (butlast (py_split c s)) @ [c] @ last (py_split c s)"
    using py_join_snoc [OF ne, of "[c]" "last (py_split c s)"] by simp
  then show ?thesis by (simp add: py_join_split)
qed

lemma length_split_sep: "1 < length (py_split c s) \<longleftrightarrow> c \<in> set s"
proof
  assume a: "1 < length (py_split c s)"
  show "c \<in> set s"
  proof (rule ccontr)
    assume "c \<notin> set s"
    then have "py_split c s = [s]" by (rule py_split_no_sep)
    with a show False by simp
  qed
next
  assume "c \<in> set s"
  then show "1 < length (py_split c s)"
  proof (induction s)
    case Nil
    then show ?case by simp
  next
    case (Cons x s)
    then show ?case using py_split_nonempty [of c s]
      by (cases "py_split c s") (auto split: list.splits)
  qed
qed

text \<open>
  C7. Once the index is created: if none of the three field paths contains a dot, the
  store is not nested, its nested path is empty and the fields are the paths; if the three
  paths are one common prefix \<open>p\<close>, a dot and a leaf without a dot, the store is nested
  with nested path \<open>p\<close> and the leaves as fields; and if some path contains a dot and
  the three are not of that shape, construction raises the exception about the nested
  path (the configuration error of the specification).
\<close>

theorem init_field_mapping:
  assumes created:
    "client_indices_create cl idx
       (index_body name_f text_f doc_id_f emb_f emb_dim custom_mapping) = None"
  shows
    "(CHR ''.'' \<notin> set text_f \<and> CHR ''.'' \<notin> set name_f \<and> CHR ''.'' \<notin> set doc_id_f \<longrightarrow>
        (\<exists>s. init cl idx search_flds text_f name_f doc_id_f tag_flds emb_f emb_dim
                custom_mapping excluded = Inr s
             \<and> \<not> is_nested s \<and> nested_path s = []
             \<and> text_field s = text_f \<and> name_field s = name_f \<and> doc_id_field s = doc_id_f))
     \<and> (\<forall>p lt ln ld.
           text_f = p @ ''.'' @ lt \<and> name_f = p @ ''.'' @ ln \<and> doc_id_f = p @ ''.'' @ ld
           \<and> CHR ''.'' \<notin> set lt \<and> CHR ''.'' \<notin> set ln \<and> CHR ''.'' \<notin> set ld \<longrightarrow>
        (\<exists>s. init cl idx search_flds text_f name_f doc_id_f tag_flds emb_f emb_dim
                custom_mapping excluded = Inr s
             \<and> is_nested s \<and> nested_path s = p
             \<and> text_field s = lt \<and> name_field s = ln \<and> doc_id_field s = ld))
     \<and> ((CHR ''.'' \<in> set text_f \<or> CHR ''.'' \<in> set name_f \<or> CHR ''.'' \<in> set doc_id_f)
         \<and> \<not> (\<exists>p lt ln ld.
           text_f = p @ ''.'' @ lt \<and> name_f = p @ ''.'' @ ln \<and> doc_id_f = p @ ''.'' @ ld
           \<and> CHR ''.'' \<notin> set lt \<and> CHR ''.'' \<notin> set ln \<and> CHR ''.'' \<notin> set ld) \<longrightarrow>
        init cl idx search_flds text_f name_f doc_id_f tag_flds emb_f emb_dim
          custom_mapping excluded
        = Inl (Exception
             ''text_field, doc_id_field, name_field should have the same nested path''))"
proof (intro conjI impI allI)
  assume "CHR ''.'' \<notin> set text_f \<and> CHR ''.'' \<notin> set name_f \<and> CHR ''.'' \<notin> set doc_id_f"
  then show "\<exists>s. init cl idx search_flds text_f name_f doc_id_f tag_flds emb_f emb_dim
                custom_mapping excluded = Inr s
             \<and> \<not> is_nested s \<and> nested_path s = []
             \<and> text_field s = text_f \<and> name_field s = name_f \<and> doc_id_field s = doc_id_f"
    using created by (simp add: init_def py_split_no_sep)
next
  fix p lt ln ld
  assume d: "text_f = p @ ''.'' @ lt \<and> name_f = p @ ''.'' @ ln \<and> doc_id_f = p @ ''.'' @ ld
           \<and> CHR ''.'' \<notin> set lt \<and> CHR ''.'' \<notin> set ln \<and> CHR ''.'' \<notin> set ld"
  have ne: "py_split CHR ''.'' p \<noteq> []" by (rule py_split_nonempty)
  from d have st: "py_split CHR ''.'' text_f = py_split CHR ''.'' p @ [lt]"
    and sn: "py_split CHR ''.'' name_f = py_split CHR ''.'' p @ [ln]"
    and sd: "py_split CHR ''.'' doc_id_f = py_split CHR ''.'' p @ [ld]"
    by (simp_all add: py_split_snoc)
  have j: "py_join ''.'' (py_split CHR ''.'' p) = p" by (rule py_join_split)
  show "\<exists>s. init cl idx search_flds text_f name_f doc_id_f tag_flds emb_f emb_dim
                custom_mapping excluded = Inr s
             \<and> is_nested s \<and> nested_path s = p
             \<and> text_field s = lt \<and> name_field s = ln \<and> doc_id_field s = ld"
    using created ne by (simp add: init_def st sn sd j)
next
  let ?tp = "py_split CHR ''.'' text_f"
  let ?np = "py_split CHR ''.'' name_f"
  let ?dp = "py_split CHR ''.'' doc_id_f"
  assume a: "(CHR ''.'' \<in> set text_f \<or> CHR ''.'' \<in> set name_f \<or> CHR ''.'' \<in> set doc_id_f)
         \<and> \<not> (\<exists>p lt ln ld.
           text_f = p @ ''.'' @ lt \<and> name_f = p @ ''.'' @ ln \<and> doc_id_f = p @ ''.'' @ ld
           \<and> CHR ''.'' \<notin> set lt \<and> CHR ''.'' \<notin> set ln \<and> CHR ''.'' \<notin> set ld)"
  then have some: "1 < length ?tp \<or> 1 < length ?dp \<or> 1 < length ?np"
    using length_split_sep [of "CHR ''.''" text_f] length_split_sep [of "CHR ''.''" name_f]
      length_split_sep [of "CHR ''.''" doc_id_f]
    by blast
  have differ: "\<not> (butlast ?tp = butlast ?dp \<and> butlast ?dp = butlast ?np)"
  proof
    assume eq: "butlast ?tp = butlast ?dp \<and> butlast ?dp = butlast ?np"
    have "length (butlast ?tp) = length (butlast ?dp)" "length (butlast ?dp) = length (butlast ?np)"
      using eq by simp_all
    with some have lt: "1 < length ?tp" and ln: "1 < length ?np" and ld: "1 < length ?dp"
      by auto
    have "text_f = py_join ''.'' (butlast ?tp) @ ''.'' @ last ?tp"
      using split_decompose [OF lt] by simp
    moreover have "name_f = py_join ''.'' (butlast ?tp) @ ''.'' @ last ?np"
      using split_decompose [OF ln] eq by simp
    moreover have "doc_id_f = py_join ''.'' (butlast ?tp) @ ''.'' @ last ?dp"
      using split_decompose [OF ld] eq by simp
    moreover have "CHR ''.'' \<notin> set (last ?tp)" "CHR ''.'' \<notin> set (last ?np)"
        "CHR ''.'' \<notin> set (last ?dp)"
      using py_split_parts_no_sep [of _ "CHR ''.''"] py_split_nonempty [of "CHR ''.''"]
      by (meson last_in_set)+
    ultimately show False using a by blast
  qed
  show "init cl idx search_flds text_f name_f doc_id_f tag_flds emb_f emb_dim
          custom_mapping excluded
        = Inl (Exception
             ''text_field, doc_id_field, name_field should have the same nested path'')"
    using created some differ by (simp add: init_def Let_def)
qed

theorem init_field_mapping_witness:
  "init (fixed_client []) ''document'' (OneStr ''text'') ''text'' ''name'' ''document_id''
      None None JNull JNull None = Inr flat_store
   \<and> init (fixed_client []) ''document'' (OneStr ''q.text'') ''q.text'' ''q.name'' ''q.id''
      None None JNull JNull None = Inr nested_store
   \<and> init (fixed_client []) ''document'' (OneStr ''q.text'') ''q.text'' ''r.name'' ''q.id''
      None None JNull JNull None
     = Inl (Exception ''text_field, doc_id_field, name_field should have the same nested path'')"
  using init_field_mapping
      [of "fixed_client []" "''document''" "''name''" "''text''" "''document_id''" None JNull
          JNull "OneStr ''text''" None None]
    init_field_mapping
      [of "fixed_client []" "''document''" "''q.name''" "''q.text''" "''q.id''" None JNull
          JNull "OneStr ''q.text''" None None]
    init_field_mapping
      [of "fixed_client []" "''document''" "''r.name''" "''q.text''" "''q.id''" None JNull
          JNull "OneStr ''q.text''" None None]
  by (simp add: init_def fixed_client_def flat_store_def nested_store_def)

subsection \<open>The projections and the heap\<close>

lemma map_of_dict_del_same: "map_of (dict_del k d) k = None"
  by (induction d) (auto simp: dict_del_def)

lemma dict_del_idem: "dict_del k (dict_del k d) = dict_del k d"
  by (simp add: dict_del_def)

lemma dict_pop_Inr: "dict_pop d k = Inr (v, d') \<longleftrightarrow> map_of d k = Some v \<and> d' = dict_del k d"
  by (auto simp: dict_pop_def split: option.splits)

lemma dict_pop_absent: "map_of d k = None \<Longrightarrow> dict_pop d k = Inl (KeyError k)"
  by (simp add: dict_pop_def)

lemma extract_hit_Inr:
  assumes "extract_hit s x h = (Inr (txt, m), h')"
  shows "h' = h(hit_source x := dict_del (text_field s) (h (hit_source x)))"
    and "custom_meta m = hit_source x"
    and "map_of (h (hit_source x)) (text_field s) = Some txt"
  using assms
  by (auto simp: extract_hit_def Let_def dict_pop_def split: sum.splits option.splits prod.splits)

lemma extract_loop_Inr:
  "extract_loop s xs acc h = (Inr (ps, ms), h') \<Longrightarrow>
     map custom_meta ms = map custom_meta (snd acc) @ map hit_source xs
     \<and> (\<forall>a. h' a = (if a \<in> hit_source ` set xs then dict_del (text_field s) (h a) else h a))"
proof (induction xs arbitrary: acc h)
  case Nil
  then show ?case by auto
next
  case (Cons x xs)
  from Cons.prems obtain tx m h1 where
    step: "extract_hit s x h = (Inr (tx, m), h1)"
    and rest: "extract_loop s xs (fst acc @ [tx], snd acc @ [m]) h1 = (Inr (ps, ms), h')"
    by (auto split: prod.splits sum.splits)
  note e = extract_hit_Inr [OF step]
  from Cons.IH [OF rest] have
    ih1: "map custom_meta ms = map custom_meta (snd acc @ [m]) @ map hit_source xs"
    and ih2: "\<And>a. h' a = (if a \<in> hit_source ` set xs then dict_del (text_field s) (h1 a) else h1 a)"
    by simp_all
  have "map custom_meta ms = map custom_meta (snd acc) @ map hit_source (x # xs)"
    using ih1 e(2) by simp
  moreover have "\<forall>a. h' a = (if a \<in> hit_source ` set (x # xs) then dict_del (text_field s) (h a) else h a)"
    using ih2 e(1) by (auto simp: dict_del_idem)
  ultimately show ?case by blast
qed

lemma extract_loop_text_gone:
  "map_of (h (hit_source x)) (text_field s) = None \<Longrightarrow>
     extract_loop s (x # xs) acc h = (Inl (KeyError (text_field s)), h)"
  by (simp add: extract_hit_def dict_pop_absent)

lemma strip3_filter:
  "strip3 s d =
     filter (\<lambda>kv. fst kv \<noteq> text_field s \<and> fst kv \<noteq> doc_id_field s \<and> fst kv \<noteq> name_field s) d"
  by (simp add: strip3_def dict_del_def)

lemma strip3_idem: "strip3 s (strip3 s d) = strip3 s d"
  unfolding strip3_filter by (induction d) auto

lemma map_of_dict_del: "map_of (dict_del k d) k' = (if k' = k then None else map_of d k')"
  by (induction d) (auto simp: dict_del_def)

lemma strip3_text_gone: "map_of (strip3 s d) (text_field s) = None"
  by (simp add: strip3_def map_of_dict_del)

lemma embedding_hit_Inr:
  assumes "embedding_hit fsub s x h = (Inr (txt, m), h')"
  shows "h' = h(hit_source x := strip3 s (h (hit_source x)))"
  using assms
  by (auto simp: embedding_hit_def strip3_def Let_def dict_pop_def split: sum.splits option.splits prod.splits)

lemma embedding_loop_Inr:
  "embedding_loop fsub s xs acc h = (Inr (ps, ms), h') \<Longrightarrow>
     (\<forall>a. h' a = (if a \<in> hit_source ` set xs then strip3 s (h a) else h a))"
proof (induction xs arbitrary: acc h)
  case Nil
  then show ?case by auto
next
  case (Cons x xs)
  from Cons.prems obtain tx m h1 where
    step: "embedding_hit fsub s x h = (Inr (tx, m), h1)"
    and rest: "embedding_loop fsub s xs (fst acc @ [tx], snd acc @ [m]) h1 = (Inr (ps, ms), h')"
    by (auto split: prod.splits sum.splits)
  note e = embedding_hit_Inr [OF step]
  from Cons.IH [OF rest] have
    ih2: "\<And>a. h' a = (if a \<in> hit_source ` set xs then strip3 s (h1 a) else h1 a)"
    by simp_all
  show ?case
    using ih2 e by (auto simp: strip3_idem)
qed

lemma embedding_loop_text_gone:
  "map_of (h (hit_source x)) (text_field s) = None \<Longrightarrow>
     embedding_loop fsub s (x # xs) acc h = (Inl (KeyError (text_field s)), h)"
  by (simp add: embedding_hit_def dict_pop_absent)

lemma extract_paragraphs_example: "extract_paragraphs embedding_store example_hits example_heap =
   (Inr ([JStr ''first paragraph'', JStr ''second paragraph''],
         [\<lparr>paragraph_id = ''p1'', document_id = JStr ''d1'', document_name = JStr ''doc one'',
           score = Some 2, custom_meta = 0\<rparr>,
          \<lparr>paragraph_id = ''p2'', document_id = JStr ''d2'', document_name = JStr ''doc two'',
           score = Some (3 / 2), custom_meta = 1\<rparr>]),
    example_heap
      (0 := [(''document_id'', JStr ''d1''), (''name'', JStr ''doc one''), (''lang'', JStr ''en'')],
       1 := [(''document_id'', JStr ''d2''), (''name'', JStr ''doc two'')]))"
  by (simp add: extract_paragraphs_def extract_hit_def flat_store_def example_hits_def embedding_store_def
      example_heap_def plain_hit_def dict_pop_def dict_get_def dict_del_def Let_def)

lemma query_by_embedding_example: "query_by_embedding exact_sub (fixed_client example_hits) embedding_store (JList [JNum 1]) 10 None example_heap =
   (Inr ([JStr ''first paragraph'', JStr ''second paragraph''],
         [[(''paragraph_id'', JStr ''p1''), (''document_id'', JStr ''d1''),
           (''document_name'', JStr ''doc one''), (''score'', JNum 1), (''lang'', JStr ''en'')],
          [(''paragraph_id'', JStr ''p2''), (''document_id'', JStr ''d2''),
           (''document_name'', JStr ''doc two''), (''score'', JNum (1 / 2))]]),
    example_heap (0 := [(''lang'', JStr ''en'')], 1 := []))"
  by (simp add: query_by_embedding_def embedding_hit_def embedding_store_def flat_store_def example_hits_def
      example_heap_def plain_hit_def dict_pop_def dict_get_def dict_del_def Let_def fixed_client_def sub_one_def exact_sub_def)

text \<open>
  C9. The projections change the hits' source mappings in place. After a flat
  projection that returned, the \<open>custom_meta\<close> of each metadata record is the address of
  its hit's source mapping, that mapping is the original one without the text field, and
  no other mapping changed; projecting the same hits again raises \<open>KeyError\<close> on the
  text field. After the loop of \<open>query_by_embedding\<close> the source mappings have lost
  the text, document id and name fields, and running the loop again on the same hits
  raises the same \<open>KeyError\<close>.
\<close>

theorem projection_mutates_source:
  "(extract_paragraphs s result h = (Inr (ps, ms), h') \<longrightarrow>
      map custom_meta ms = map hit_source result
      \<and> (\<forall>x \<in> set result. h' (hit_source x) = dict_del (text_field s) (h (hit_source x)))
      \<and> (\<forall>a. a \<notin> hit_source ` set result \<longrightarrow> h' a = h a)
      \<and> (result \<noteq> [] \<longrightarrow>
           extract_paragraphs s result h' = (Inl (KeyError (text_field s)), h')))
   \<and> (client_search cl (index_name s) (embedding_body s query_emb top_k cands) None = Inr result
       \<and> query_by_embedding fsub cl s query_emb top_k cands h = (Inr (ps2, ms2), h2) \<longrightarrow>
      (\<forall>x \<in> set result. h2 (hit_source x) = strip3 s (h (hit_source x)))
      \<and> (\<forall>a. a \<notin> hit_source ` set result \<longrightarrow> h2 a = h a)
      \<and> (result \<noteq> [] \<longrightarrow>
           embedding_loop fsub s result ([], []) h2 = (Inl (KeyError (text_field s)), h2)))"
proof (intro conjI impI)
  assume a: "extract_paragraphs s result h = (Inr (ps, ms), h')"
  then have l: "extract_loop s result ([], []) h = (Inr (ps, ms), h')"
    by (simp add: extract_paragraphs_def)
  note r = extract_loop_Inr [OF l]
  from r show "map custom_meta ms = map hit_source result" by simp
  from r show "\<forall>x \<in> set result. h' (hit_source x) = dict_del (text_field s) (h (hit_source x))"
    by simp
  from r show "\<forall>a. a \<notin> hit_source ` set result \<longrightarrow> h' a = h a" by simp
  assume ne: "result \<noteq> []"
  then obtain x xs where xs: "result = x # xs" by (cases result) auto
  have "h' (hit_source x) = dict_del (text_field s) (h (hit_source x))"
    using r xs by simp
  then have "map_of (h' (hit_source x)) (text_field s) = None"
    by (simp add: map_of_dict_del_same)
  then show "extract_paragraphs s result h' = (Inl (KeyError (text_field s)), h')"
    unfolding extract_paragraphs_def xs by (rule extract_loop_text_gone)
next
  assume a: "client_search cl (index_name s) (embedding_body s query_emb top_k cands) None = Inr result
       \<and> query_by_embedding fsub cl s query_emb top_k cands h = (Inr (ps2, ms2), h2)"
  then have l: "embedding_loop fsub s result ([], []) h = (Inr (ps2, ms2), h2)"
    by (auto simp: query_by_embedding_def split: if_splits)
  note r = embedding_loop_Inr [OF l]
  from r show "\<forall>x \<in> set result. h2 (hit_source x) = strip3 s (h (hit_source x))" by simp
  from r show "\<forall>a. a \<notin> hit_source ` set result \<longrightarrow> h2 a = h a" by simp
  assume ne: "result \<noteq> []"
  then obtain x xs where xs: "result = x # xs" by (cases result) auto
  have "h2 (hit_source x) = strip3 s (h (hit_source x))"
    using r xs by simp
  then have "map_of (h2 (hit_source x)) (text_field s) = None"
    by (simp add: strip3_text_gone)
  then show "embedding_loop fsub s result ([], []) h2 = (Inl (KeyError (text_field s)), h2)"
    unfolding xs by (rule embedding_loop_text_gone)
qed

theorem projection_mutates_source_witness:
  "fst (extract_paragraphs embedding_store example_hits example_heap) =
     Inr ([JStr ''first paragraph'', JStr ''second paragraph''],
         [\<lparr>paragraph_id = ''p1'', document_id = JStr ''d1'', document_name = JStr ''doc one'',
           score = Some 2, custom_meta = 0\<rparr>,
          \<lparr>paragraph_id = ''p2'', document_id = JStr ''d2'', document_name = JStr ''doc two'',
           score = Some (3 / 2), custom_meta = 1\<rparr>])
   \<and> snd (extract_paragraphs embedding_store example_hits example_heap) 0 =
       [(''document_id'', JStr ''d1''), (''name'', JStr ''doc one''), (''lang'', JStr ''en'')]
   \<and> extract_paragraphs embedding_store example_hits
        (snd (extract_paragraphs embedding_store example_hits example_heap))
      = (Inl (KeyError ''text''), snd (extract_paragraphs embedding_store example_hits example_heap))
   \<and> snd (query_by_embedding exact_sub (fixed_client example_hits) embedding_store (JList [JNum 1]) 10 None
            example_heap) 0 = [(''lang'', JStr ''en'')]
   \<and> embedding_loop exact_sub embedding_store example_hits ([], [])
        (snd (query_by_embedding exact_sub (fixed_client example_hits) embedding_store (JList [JNum 1]) 10
               None example_heap))
      = (Inl (KeyError ''text''),
         snd (query_by_embedding exact_sub (fixed_client example_hits) embedding_store (JList [JNum 1]) 10
               None example_heap))"
  using projection_mutates_source
    [of embedding_store example_hits example_heap
        "[JStr ''first paragraph'', JStr ''second paragraph'']"
        "[\<lparr>paragraph_id = ''p1'', document_id = JStr ''d1'', document_name = JStr ''doc one'',
           score = Some 2, custom_meta = 0\<rparr>,
          \<lparr>paragraph_id = ''p2'', document_id = JStr ''d2'', document_name = JStr ''doc two'',
           score = Some (3 / 2), custom_meta = 1\<rparr>]"
        "snd (extract_paragraphs embedding_store example_hits example_heap)"
        "fixed_client example_hits" "JList [JNum 1]" 10 None exact_sub
        "[JStr ''first paragraph'', JStr ''second paragraph'']"
        "[[(''paragraph_id'', JStr ''p1''), (''document_id'', JStr ''d1''),
           (''document_name'', JStr ''doc one''), (''score'', JNum 1), (''lang'', JStr ''en'')],
          [(''paragraph_id'', JStr ''p2''), (''document_id'', JStr ''d2''),
           (''document_name'', JStr ''doc two''), (''score'', JNum (1 / 2))]]"
        "snd (query_by_embedding exact_sub (fixed_client example_hits) embedding_store (JList [JNum 1]) 10
               None example_heap)"]
    extract_paragraphs_example query_by_embedding_example
  by (simp add: fixed_client_def example_hits_def embedding_store_def flat_store_def)

subsection \<open>The score of an embedding query\<close>









subsection \<open>The nested projection\<close>

lemma nested_hit_ok: "inner_ok s h i \<Longrightarrow> nested_hit s h x i = Inr (projected_pair s h x i)"
  by (auto simp: inner_ok_def nested_hit_def projected_pair_def field_value_def dict_get_def)

lemma nested_inner_loop_ok:
  "list_all (inner_ok s h) ihs \<Longrightarrow>
     nested_inner_loop s h x ihs acc =
       Inr (fst acc @ map fst (map (projected_pair s h x) ihs),
            snd acc @ map snd (map (projected_pair s h x) ihs))"
proof (induction ihs arbitrary: acc)
  case Nil
  then show ?case by simp
next
  case (Cons i ihs)
  then have "nested_hit s h x i = Inr (projected_pair s h x i)"
    by (simp add: nested_hit_ok)
  with Cons show ?case by (simp add: split_beta)
qed

lemma nested_outer_loop_ok:
  "nested_wf s h result \<Longrightarrow>
     nested_outer_loop s h result acc =
       Inr (fst acc @ map fst (flattened s h result), snd acc @ map snd (flattened s h result))"
proof (induction result arbitrary: acc)
  case Nil
  then show ?case by (simp add: flattened_def)
next
  case (Cons x xs)
  from Cons.prems obtain ihs where g: "get_inner_hits s x = Inr ihs"
    and ok: "list_all (inner_ok s h) ihs" and wf: "nested_wf s h xs"
    by (auto simp: nested_wf_def split: sum.splits)
  have f: "flattened s h (x # xs) = map (projected_pair s h x) ihs @ flattened s h xs"
    by (simp add: flattened_def inner_hits_of_def g)
  show ?case
    by (simp add: g nested_inner_loop_ok [OF ok] Cons.IH [OF wf] f)
qed

lemma zip_fst_snd: "zip (map fst zs) (map snd zs) = zs"
  by (induction zs) auto

lemma sorted_desc_sort_key:
  "sorted_wrt (\<lambda>a b. score_key b \<le> score_key a) (sort_key (\<lambda>z. - score_key z) zs)"
proof -
  have "sorted (map (\<lambda>z. - score_key z) (sort_key (\<lambda>z. - score_key z) zs))"
    by (rule sorted_sort_key)
  then show ?thesis by (simp add: sorted_map)
qed

text \<open>
  Where the truncated list is not empty the projection re-ranks. For a well-formed
  nested result with at least one inner hit, a limit of at least 1 and, when there are
  two inner hits or more, a score on each of them, it returns the texts and the metadata
  of the first \<open>top_k\<close> pairs of the flattened list sorted by descending score: one pair
  per inner hit, with the paragraph id of the outer hit and the document id, name and
  score of the inner hit. The sorted list is a permutation of the flattened one, in
  descending order of score, equal scores keep their order, and \<open>min top_k n\<close> pairs are
  returned out of \<open>n\<close>.
\<close>

lemma nested_projection_ranked:
  assumes "nested_wf s h result" and "flattened s h result \<noteq> []" and "1 \<le> top_k"
    and "length (flattened s h result) < 2
         \<or> list_all (\<lambda>z. score (snd z) \<noteq> None) (flattened s h result)"
  shows "extract_paragraphs_nested s result top_k h =
           Inr (map fst (take (nat top_k) (sort_key (\<lambda>z. - score_key z) (flattened s h result))),
                map snd (take (nat top_k) (sort_key (\<lambda>z. - score_key z) (flattened s h result))))
     \<and> mset (sort_key (\<lambda>z. - score_key z) (flattened s h result)) = mset (flattened s h result)
     \<and> sorted_wrt (\<lambda>a b. score_key b \<le> score_key a)
          (sort_key (\<lambda>z. - score_key z) (flattened s h result))
     \<and> filter (\<lambda>z. score_key z = r) (sort_key (\<lambda>z. - score_key z) (flattened s h result))
         = filter (\<lambda>z. score_key z = r) (flattened s h result)
     \<and> length (take (nat top_k) (sort_key (\<lambda>z. - score_key z) (flattened s h result)))
         = min (nat top_k) (length (flattened s h result))"
proof -
  let ?F = "flattened s h result"
  let ?S = "sort_key (\<lambda>z. - score_key z) ?F"
  have loop: "nested_outer_loop s h result ([], []) = Inr (map fst ?F, map snd ?F)"
    using nested_outer_loop_ok [OF assms(1), of "([], [])"] by simp
  have sorted: "sort_by_score ?F = Inr ?S"
    using assms(4) by (auto simp: sort_by_score_def list_all_iff)
  have sne: "?S \<noteq> []" using assms(2) by (metis length_0_conv length_sort)
  with assms(3) have ne: "take (nat top_k) ?S \<noteq> []" by (cases "nat top_k") auto
  have sl: "slice_to ?S top_k = take (nat top_k) ?S"
    using assms(3) by (simp add: slice_to_def)
  have "extract_paragraphs_nested s result top_k h =
          Inr (map fst (take (nat top_k) ?S), map snd (take (nat top_k) ?S))"
    using ne by (simp add: extract_paragraphs_nested_def loop zip_fst_snd sorted sl unzip_pairs_def)
  moreover have "mset ?S = mset ?F" by simp
  moreover have "sorted_wrt (\<lambda>a b. score_key b \<le> score_key a) ?S"
    by (rule sorted_desc_sort_key)
  moreover have "filter (\<lambda>z. score_key z = r) ?S = filter (\<lambda>z. score_key z = r) ?F"
    using sort_key_stable [of "\<lambda>z. - score_key z" "- r" ?F] by simp
  moreover have "length (take (nat top_k) ?S) = min (nat top_k) (length ?F)" by simp
  ultimately show ?thesis by blast
qed

text \<open>
  The example of the specification: inner hits scored 0.2 and 0.9 under the first outer
  hit and 0.5 under the second, at a limit of 2, give the hits scored 0.9 and 0.5 in
  that order.
\<close>

lemma nested_projection_ranked_example:
  "nested_wf nested_store nested_heap nested_hits
   \<and> flattened nested_store nested_heap nested_hits \<noteq> []
   \<and> extract_paragraphs_nested nested_store nested_hits 2 nested_heap =
     Inr ([JStr ''beta'', JStr ''gamma''],
          [\<lparr>paragraph_id = ''H1'', document_id = JStr ''d1'', document_name = JStr ''doc one'',
            score = Some (9 / 10), custom_meta = 11\<rparr>,
           \<lparr>paragraph_id = ''H2'', document_id = JStr ''d2'', document_name = JStr ''doc two'',
            score = Some (1 / 2), custom_meta = 12\<rparr>])"
  by (simp add: extract_paragraphs_nested_def nested_store_def nested_hits_def nested_heap_def
      get_inner_hits_def nested_hit_def dict_get_def sort_by_score_def score_key_def
      slice_to_def unzip_pairs_def nested_wf_def inner_ok_def flattened_def inner_hits_of_def
      projected_pair_def)

text \<open>
  C5. The re-ranking holds only where the truncated list is not empty. With zero hits,
  and with the hits of the example above at a limit of 0, the flattened, sorted and
  truncated list is empty and the final unpacking raises \<open>ValueError\<close>, where the
  claim has the projection return the (empty) truncated lists.
\<close>

theorem nested_projection_empty_truncation:
  "fst (query (fixed_client []) nested_store (JStr ''why'') 2 None nested_heap) = Inl ValueError
   \<and> extract_paragraphs_nested nested_store nested_hits 0 nested_heap = Inl ValueError"
  by (simp add: query_def fixed_client_def extract_paragraphs_nested_def nested_store_def
      nested_hits_def nested_heap_def get_inner_hits_def nested_hit_def dict_get_def
      sort_by_score_def score_key_def slice_to_def unzip_pairs_def)

end
